theory Spec2Isabelle
  imports Main "HOL-Library.AList"
begin

section \<open>JavaScript values and the object store\<close>

text \<open>
  The module \<open>src/module/bot.js\<close> (class \<open>Bot\<close>) works on plain JavaScript data.
  Primitive values and arrays are values of \<open>jsval\<close>; an object is a reference
  \<open>JRef a\<close> into a store that maps the address \<open>a\<close> to the object's property list,
  in insertion order. The store is what makes sharing visible: the shallow copy made by
  \<open>Object.assign\<close> copies references, so a write through the copy is a write to the
  shared object.

  An object's property list holds its own properties (and, for an instance of a class,
  the members of its class). What the list does not hold, the object inherits from
  \<open>Object.prototype\<close>: reading \<open>constructor\<close>, \<open>toString\<close>, \<open>__proto__\<close> and the
  other names of \<open>object_prototype_names\<close> from any object gives a built-in function
  or object, the value \<open>JBuiltin\<close> of that name.

  Scope of the model. \<open>JNum n\<close> is the number \<open>n\<close>, an integer that a double holds
  exactly. A function value \<open>JFun f src\<close> is an identity \<open>f\<close> with its source text
  \<open>src\<close> (what \<open>toString()\<close> gives). Arrays are dense and immutable values. A string
  counts one unit per character. Accessors and user-defined \<open>toString\<close> are not
  modelled. Where the model does not cover what the JavaScript does, it answers
  \<open>Unmodelled\<close> instead of guessing: a reference that the store does not hold; any
  property of a function, a built-in, a number or a boolean; a property of an array or
  a string other than its length and its indices; a write to an array or a function; a
  write to the property \<open>__proto__\<close>, which sets the prototype; a call of a built-in
  function; a \<open>toJSON\<close> method met by \<open>JSON.stringify\<close>; the text of a number of
  \<open>10^21\<close> or more.
\<close>

type_synonym addr = nat

datatype jsval =
    JUndefined
  | JNull
  | JBool bool
  | JNum int
  | JStr string
  | JFun nat string
  | JBuiltin string
  | JArr "jsval list"
  | JRef addr

type_synonym fields = "(string \<times> jsval) list"

type_synonym store = "(addr \<times> fields) list"

text \<open>
  What a \<open>throw\<close> carries: an instance of an error class (\<open>new Error(msg)\<close> is
  \<open>JsError ''Error'' msg\<close>, a runtime type error is \<open>JsError ''TypeError'' msg\<close>),
  or any other thrown value (\<open>collect\<close> throws a bare string).
\<close>

datatype exn =
    JsError string string
  | Thrown jsval
  | Unmodelled

definition type_error :: "string \<Rightarrow> exn" where
  "type_error msg = JsError ''TypeError'' msg"

subsection \<open>Primitive operations of the language\<close>

fun truthy :: "jsval \<Rightarrow> bool" where
  "truthy JUndefined = False"
| "truthy JNull = False"
| "truthy (JBool b) = b"
| "truthy (JNum n) = (n \<noteq> 0)"
| "truthy (JStr s) = (s \<noteq> [])"
| "truthy (JFun f src) = True"
| "truthy (JBuiltin b) = True"
| "truthy (JArr xs) = True"
| "truthy (JRef a) = True"

text \<open>
  The members of \<open>Object.prototype\<close>. All are functions but \<open>__proto__\<close>, which
  reads as \<open>Object.prototype\<close> itself, an object.
\<close>

definition object_prototype_names :: "string list" where
  "object_prototype_names =
     [''constructor'', ''__defineGetter__'', ''__defineSetter__'', ''hasOwnProperty'',
      ''__lookupGetter__'', ''__lookupSetter__'', ''isPrototypeOf'', ''propertyIsEnumerable'',
      ''toString'', ''valueOf'', ''__proto__'', ''toLocaleString'']"

definition inherited :: "string \<Rightarrow> jsval" where
  "inherited k = (if k \<in> set object_prototype_names then JBuiltin k else JUndefined)"

fun typeof :: "jsval \<Rightarrow> string" where
  "typeof JUndefined = ''undefined''"
| "typeof JNull = ''object''"
| "typeof (JBool b) = ''boolean''"
| "typeof (JNum n) = ''number''"
| "typeof (JStr s) = ''string''"
| "typeof (JFun f src) = ''function''"
| "typeof (JBuiltin b) = (if b = ''__proto__'' then ''object'' else ''function'')"
| "typeof (JArr xs) = ''object''"
| "typeof (JRef a) = ''object''"

definition digit_chars :: string where
  "digit_chars = ''0123456789''"

fun nat_to_string :: "nat \<Rightarrow> string" where
  "nat_to_string n =
     (if n < 10 then [digit_chars ! n]
      else nat_to_string (n div 10) @ [digit_chars ! (n mod 10)])"

declare nat_to_string.simps [simp del]

definition int_to_string :: "int \<Rightarrow> string" where
  "int_to_string i =
     (if i < 0 then CHR ''-'' # nat_to_string (nat (- i)) else nat_to_string (nat i))"

fun join_comma :: "string list \<Rightarrow> string" where
  "join_comma [] = []"
| "join_comma [s] = s"
| "join_comma (s # t # ss) = s @ CHR '','' # join_comma (t # ss)"

text \<open>
  \<open>ToString\<close>: what the conversion to a property key gives, and \<open>v.toString()\<close>
  for a truthy \<open>v\<close> (the module calls \<open>toString\<close> on truthy values only);
  \<open>None\<close> where the model does not say. A number below \<open>10^21\<close> in magnitude prints
  its decimal digits (from \<open>10^21\<close> on the language switches to an exponent). An
  array joins its elements with commas, \<open>null\<close> and \<open>undefined\<close> elements giving the
  empty string; a function gives its source, a built-in function the text the engine
  prints for native code. The text of an object of the store is that of its own
  \<open>toString\<close> or \<open>valueOf\<close> when it has one, which is code again: the model does not
  say.
\<close>

fun js_to_string :: "jsval \<Rightarrow> string option"
  and elem_strings :: "jsval list \<Rightarrow> string list option" where
  "js_to_string JUndefined = Some ''undefined''"
| "js_to_string JNull = Some ''null''"
| "js_to_string (JBool b) = Some (if b then ''true'' else ''false'')"
| "js_to_string (JNum n) =
     (if \<bar>n\<bar> < 1000000000000000000000 then Some (int_to_string n) else None)"
| "js_to_string (JStr s) = Some s"
| "js_to_string (JFun f src) = Some src"
| "js_to_string (JBuiltin b) =
     Some (if b = ''__proto__'' then ''[object Object]''
           else ''function '' @ (if b = ''constructor'' then ''Object'' else b)
                  @ ''() { [native code] }'')"
| "js_to_string (JArr xs) = map_option join_comma (elem_strings xs)"
| "js_to_string (JRef a) = None"
| "elem_strings [] = Some []"
| "elem_strings (x # xs) =
     (case (if x = JUndefined \<or> x = JNull then Some [] else js_to_string x) of
        None \<Rightarrow> None
      | Some s \<Rightarrow> map_option ((#) s) (elem_strings xs))"

text \<open>The own enumerable properties of an array or a string: its indices.\<close>

definition indexed :: "jsval list \<Rightarrow> fields" where
  "indexed xs = zip (map nat_to_string [0..<length xs]) xs"

definition chars_of :: "string \<Rightarrow> jsval list" where
  "chars_of s = map (\<lambda>c. JStr [c]) s"

text \<open>The property \<open>k\<close> of a property list, \<open>undefined\<close> when the list has none.\<close>

definition field :: "fields \<Rightarrow> string \<Rightarrow> jsval" where
  "field fs k = (case map_of fs k of Some v \<Rightarrow> v | None \<Rightarrow> JUndefined)"

text \<open>The length and the indices of an array or a string; nothing else is modelled.\<close>

definition indexed_prop :: "jsval list \<Rightarrow> string \<Rightarrow> exn + jsval" where
  "indexed_prop xs k =
     (if k = ''length'' then Inr (JNum (int (length xs)))
      else (case map_of (indexed xs) k of Some v \<Rightarrow> Inr v | None \<Rightarrow> Inl Unmodelled))"

text \<open>
  Reading \<open>v[k]\<close>. On \<open>undefined\<close> and \<open>null\<close> it throws a TypeError. On an object
  it gives the own property, else the inherited member of \<open>Object.prototype\<close>, else
  \<open>undefined\<close>.
\<close>

fun get_prop :: "store \<Rightarrow> jsval \<Rightarrow> string \<Rightarrow> exn + jsval" where
  "get_prop h JUndefined k = Inl (type_error ''Cannot read property of undefined'')"
| "get_prop h JNull k = Inl (type_error ''Cannot read property of null'')"
| "get_prop h (JBool b) k = Inl Unmodelled"
| "get_prop h (JNum n) k = Inl Unmodelled"
| "get_prop h (JStr s) k = indexed_prop (chars_of s) k"
| "get_prop h (JFun f src) k = Inl Unmodelled"
| "get_prop h (JBuiltin b) k = Inl Unmodelled"
| "get_prop h (JArr xs) k = indexed_prop xs k"
| "get_prop h (JRef a) k =
     (case map_of h a of
        None \<Rightarrow> Inl Unmodelled
      | Some fs \<Rightarrow> Inr (case map_of fs k of Some v \<Rightarrow> v | None \<Rightarrow> inherited k))"

text \<open>
  Writing \<open>v[k] = x\<close> in strict mode (the file starts with \<open>"use strict"\<close>): a
  TypeError on \<open>undefined\<close>, \<open>null\<close> and the primitives.
\<close>

fun set_prop :: "store \<Rightarrow> jsval \<Rightarrow> string \<Rightarrow> jsval \<Rightarrow> exn + store" where
  "set_prop h (JRef a) k x =
     (if k = ''__proto__'' then Inl Unmodelled
      else (case map_of h a of None \<Rightarrow> Inl Unmodelled
            | Some fs \<Rightarrow> Inr ((a, AList.update k x fs) # h)))"
| "set_prop h (JFun f src) k x = Inl Unmodelled"
| "set_prop h (JBuiltin b) k x = Inl Unmodelled"
| "set_prop h (JArr xs) k x = Inl Unmodelled"
| "set_prop h v k x = Inl (type_error ''Cannot create property on a primitive value'')"

text \<open>Allocation of a new object: an address the store does not hold yet.\<close>

definition fresh :: "store \<Rightarrow> addr" where
  "fresh h = Suc (foldr max (map fst h) 0)"

definition alloc :: "store \<Rightarrow> fields \<Rightarrow> addr \<times> store" where
  "alloc h fs = (fresh h, (fresh h, fs) # h)"

text \<open>
  The own enumerable properties that \<open>Object.assign\<close> and \<open>Object.keys\<close> read
  from a source: none for \<open>undefined\<close>, \<open>null\<close>, booleans, numbers, functions and
  built-ins. A property list is read with \<open>map_of\<close>, so the first binding of a key
  is the property; \<open>clearjunk\<close> drops any later, shadowed binding.
\<close>

fun own_entries :: "store \<Rightarrow> jsval \<Rightarrow> exn + fields" where
  "own_entries h (JRef a) =
     (case map_of h a of None \<Rightarrow> Inl Unmodelled | Some fs \<Rightarrow> Inr (AList.clearjunk fs))"
| "own_entries h (JArr xs) = Inr (indexed xs)"
| "own_entries h (JStr s) = Inr (indexed (chars_of s))"
| "own_entries h v = Inr []"

text \<open>
  \<open>Object.assign\<close> onto a fresh local object, kept as its property list. A source
  property named \<open>__proto__\<close> would set the prototype of the target.
\<close>

definition assign_fields :: "fields \<Rightarrow> fields \<Rightarrow> exn + fields" where
  "assign_fields target src =
     (if ''__proto__'' \<in> fst ` set src then Inl Unmodelled
      else Inr (fold (\<lambda>(k, v). AList.update k v) src target))"

text \<open>\<open>Object.assign(target, src)\<close> onto an object of the store.\<close>

fun assign_object :: "store \<Rightarrow> jsval \<Rightarrow> fields \<Rightarrow> exn + store" where
  "assign_object h JUndefined src = Inl (type_error ''Cannot convert undefined or null to object'')"
| "assign_object h JNull src = Inl (type_error ''Cannot convert undefined or null to object'')"
| "assign_object h (JRef a) src =
     (case map_of h a of
        None \<Rightarrow> Inl Unmodelled
      | Some fs \<Rightarrow>
          (case assign_fields fs src of Inl e \<Rightarrow> Inl e | Inr fs1 \<Rightarrow> Inr ((a, fs1) # h)))"
| "assign_object h v src = Inl Unmodelled"

text \<open>A chain of property reads \<open>v[k1][k2]...\<close>, stopping at the first throw.\<close>

fun get_path :: "store \<Rightarrow> jsval \<Rightarrow> string list \<Rightarrow> exn + jsval" where
  "get_path h v [] = Inr v"
| "get_path h v (k # ks) =
     (case get_prop h v k of Inl e \<Rightarrow> Inl e | Inr w \<Rightarrow> get_path h w ks)"

subsection \<open>\<open>JSON.stringify\<close>\<close>

text \<open>
  The module logs \<open>JSON.stringify(param_value)\<close>, and \<open>JSON.stringify\<close> throws a
  TypeError on a value that reaches itself. \<open>json_error n h st v\<close> walks the value as
  the serialisation does, \<open>st\<close> being the objects it is inside of, and gives the error
  if there is one. The number \<open>n\<close> bounds the depth of the walk; the addresses of
  \<open>st\<close> are distinct, so the number of objects of the store is depth enough.
\<close>

definition circular :: exn where
  "circular = type_error ''Converting circular structure to JSON''"

fun json_error :: "nat \<Rightarrow> store \<Rightarrow> addr list \<Rightarrow> jsval \<Rightarrow> exn option"
  and json_errors :: "nat \<Rightarrow> store \<Rightarrow> addr list \<Rightarrow> jsval list \<Rightarrow> exn option" where
  "json_error 0 h st (JRef a) = (if a \<in> set st then Some circular else Some Unmodelled)"
| "json_error (Suc n) h st (JRef a) =
     (if a \<in> set st then Some circular
      else (case map_of h a of
              None \<Rightarrow> Some Unmodelled
            | Some fs \<Rightarrow>
                if typeof (field fs ''toJSON'') = ''function'' then Some Unmodelled
                else json_errors n h (a # st) (map snd (AList.clearjunk fs))))"
| "json_error n h st (JArr xs) = json_errors n h st xs"
| "json_error n h st JUndefined = None"
| "json_error n h st JNull = None"
| "json_error n h st (JBool b) = None"
| "json_error n h st (JNum i) = None"
| "json_error n h st (JStr s) = None"
| "json_error n h st (JFun f src) = None"
| "json_error n h st (JBuiltin b) = None"
| "json_errors n h st [] = None"
| "json_errors n h st (x # xs) =
     (case json_error n h st x of Some e \<Rightarrow> Some e | None \<Rightarrow> json_errors n h st xs)"

definition json_stringify_error :: "store \<Rightarrow> jsval \<Rightarrow> exn option" where
  "json_stringify_error h v = json_error (length h) h [] v"

section \<open>The conversation context\<close>

text \<open>
  \<open>this._context\<close>. Its bookkeeping fields are reached through the context alone in
  this module, so they are the fields of a record: \<open>confirmed\<close> is the property list
  of the object of that name, \<open>to_confirm\<close>, \<open>previous.confirmed\<close> and
  \<open>previous.processed\<close> are arrays of parameter names, \<open>confirming\<close> is a name or
  \<open>null\<close>, and \<open>param_change_history\<close> is absent until the first record is
  written. The flags \<open>_pause\<close>, \<open>_exit\<close>, \<open>_init\<close> and \<open>_sub_parameter\<close> are
  only ever tested for truthiness, so they are booleans. \<open>_parent_parameter\<close>, when
  present, is an object with the two strings \<open>type\<close> and \<open>name\<close>. The skill and all
  parameter definitions are objects of the store \<open>heap\<close>. Parameter names are
  strings, as the documentation of every method says.
\<close>

record parent_ref =
  parent_type :: string
  parent_name :: string

record change_log =
  log_type :: string
  log_name :: string
  log_param :: fields

record bot_context =
  heap :: store
  skill :: jsval
  confirmed :: fields
  to_confirm :: "string list"
  confirming :: "string option"
  previous_confirmed :: "string list"
  previous_processed :: "string list"
  param_change_history :: "change_log list option"
  flag_pause :: bool
  flag_exit :: bool
  flag_init :: bool
  switch_intent :: jsval
  sub_parameter :: bool
  parent_parameter :: "parent_ref option"

type_synonym 'a outcome = "(exn + 'a) \<times> bot_context"

text \<open>
  Code that the module calls but does not contain: the functions a skill supplies as
  parsers and reactions, which receive the bot and the context and may change both, and
  the registry of built-in parsers \<open>this.builtin_parser\<close>. They are parameters of the
  model. A function value \<open>JFun f src\<close> called as a parser behaves as \<open>parser_fn f\<close>,
  called as a reaction as \<open>reaction_fn f\<close>; the error argument of a reaction is
  \<open>None\<close> for \<open>undefined\<close>.
\<close>

record skill_code =
  parser_fn :: "nat \<Rightarrow> jsval \<Rightarrow> bot_context \<Rightarrow> jsval outcome"
  reaction_fn :: "nat \<Rightarrow> exn option \<Rightarrow> jsval \<Rightarrow> bot_context \<Rightarrow> jsval outcome"
  builtin_parser :: "string \<Rightarrow> (jsval \<Rightarrow> jsval \<Rightarrow> bot_context \<Rightarrow> jsval outcome) option"

section \<open>Flow control: \<open>pause\<close>, \<open>exit\<close>, \<open>init\<close>, \<open>switch_skill\<close>\<close>

definition pause :: "bot_context \<Rightarrow> bot_context" where
  "pause ctx = ctx\<lparr>flag_pause := True\<rparr>"

definition exit :: "bot_context \<Rightarrow> bot_context" where
  "exit ctx = ctx\<lparr>flag_exit := True\<rparr>"


definition invalid_intent :: exn where
  "invalid_intent =
     JsError ''Error'' ''Required parameter: 'name' for switch_skill() should be set and string.''"

definition switch_skill :: "jsval \<Rightarrow> bot_context \<Rightarrow> unit outcome" where
  "switch_skill intent ctx =
     (let ctx1 = exit ctx in
      case get_prop (heap ctx1) intent ''name'' of
        Inl e \<Rightarrow> (Inl e, ctx1)
      | Inr nm \<Rightarrow>
          if \<not> (truthy nm \<and> typeof nm = ''string'')
          then (Inl invalid_intent, ctx1)
          else (Inr (), ctx1\<lparr>switch_intent := intent\<rparr>))"

section \<open>The parameter registry: \<open>check_parameter_type\<close>, \<open>get_parameter\<close>\<close>

text \<open>The test \<open>skill.c && skill.c[param_name]\<close> for a container name \<open>c\<close>.\<close>

definition has_parameter :: "bot_context \<Rightarrow> string \<Rightarrow> string \<Rightarrow> exn + bool" where
  "has_parameter ctx container param_name =
     (case get_prop (heap ctx) (skill ctx) container of
        Inl e \<Rightarrow> Inl e
      | Inr c \<Rightarrow>
          if \<not> truthy c then Inr False
          else (case get_prop (heap ctx) c param_name of
                  Inl e \<Rightarrow> Inl e
                | Inr d \<Rightarrow> Inr (truthy d)))"

definition check_parameter_type :: "bot_context \<Rightarrow> string \<Rightarrow> exn + string" where
  "check_parameter_type ctx param_name =
     (case has_parameter ctx ''required_parameter'' param_name of
        Inl e \<Rightarrow> Inl e
      | Inr True \<Rightarrow> Inr ''required_parameter''
      | Inr False \<Rightarrow>
     (case has_parameter ctx ''optional_parameter'' param_name of
        Inl e \<Rightarrow> Inl e
      | Inr True \<Rightarrow> Inr ''optional_parameter''
      | Inr False \<Rightarrow>
     (case has_parameter ctx ''dynamic_parameter'' param_name of
        Inl e \<Rightarrow> Inl e
      | Inr True \<Rightarrow> Inr ''dynamic_parameter''
      | Inr False \<Rightarrow>
          if sub_parameter ctx then Inr ''sub_parameter'' else Inr ''not_applicable'')))"

definition not_found :: "string \<Rightarrow> exn" where
  "not_found param_name =
     JsError ''Error'' (''Paramter: '' @ [CHR 0x22] @ param_name @ [CHR 0x22] @ '' not found in skill.'')"

text \<open>
  \<open>get_parameter\<close> returns a new object, kept as its property list: \<open>name\<close> and
  \<open>type\<close>, then the own properties of the stored definition copied over them by
  \<open>Object.assign\<close>. The copy is shallow: a property that is a reference stays the same
  reference. The stored definition is \<open>skill[type][name]\<close>, or for a sub-parameter
  \<open>skill[parent.type][parent.name].sub_parameter[name]\<close>; \<open>definition_path\<close> is
  that chain of property names.
\<close>

definition definition_path :: "bot_context \<Rightarrow> string \<Rightarrow> string \<Rightarrow> exn + string list" where
  "definition_path ctx ty param_name =
     (if ty = ''sub_parameter''
      then (case parent_parameter ctx of
              None \<Rightarrow> Inl (type_error ''Cannot read property of undefined'')
            | Some pp \<Rightarrow> Inr [parent_type pp, parent_name pp, ''sub_parameter'', param_name])
      else Inr [ty, param_name])"

definition get_parameter :: "bot_context \<Rightarrow> string \<Rightarrow> exn + fields" where
  "get_parameter ctx param_name =
     (case check_parameter_type ctx param_name of
        Inl e \<Rightarrow> Inl e
      | Inr ty \<Rightarrow>
          let param = [(''name'', JStr param_name), (''type'', JStr ty)] in
          if ty = ''not_applicable'' then Inl (not_found param_name)
          else
            (case definition_path ctx ty param_name of
               Inl e \<Rightarrow> Inl e
             | Inr path \<Rightarrow>
            (case get_path (heap ctx) (skill ctx) path of
               Inl e \<Rightarrow> Inl e
             | Inr d \<Rightarrow>
            (case own_entries (heap ctx) d of
               Inl e \<Rightarrow> Inl e
             | Inr es \<Rightarrow> assign_fields param es))))"

section \<open>The parser dispatcher: \<open>parse_parameter\<close>\<close>

text \<open>
  The calls to \<open>debug\<close> only log; what the model keeps of them is the evaluation
  of their argument \<open>JSON.stringify(param_value)\<close>, which can throw.
  \<open>parse_parameter\<close> is given in three parts: the lines that add \<open>parameter_name\<close>
  to the policy of a parser object (\<open>add_parameter_name\<close>), the dispatch on the shape
  of the parser (\<open>run_parser\<close>), and the resolution of the parser
  (\<open>parse_parameter\<close>).
\<close>

definition call_builtin ::
  "skill_code \<Rightarrow> string \<Rightarrow> jsval \<Rightarrow> jsval \<Rightarrow> bot_context \<Rightarrow> jsval outcome" where
  "call_builtin code key param_value policy ctx =
     (case builtin_parser code key of
        None \<Rightarrow> (Inl (type_error ''Cannot read property 'parse' of undefined''), ctx)
      | Some bp \<Rightarrow> bp param_value policy ctx)"

text \<open>
  \<open>if (!parser.policy) parser.policy = {};\<close>
  \<open>parser.policy.parameter_name = parser.policy.parameter_name || param_name;\<close>
\<close>

definition add_parameter_name :: "jsval \<Rightarrow> string \<Rightarrow> bot_context \<Rightarrow> unit outcome" where
  "add_parameter_name parser param_name ctx =
     (case get_prop (heap ctx) parser ''policy'' of
        Inl e \<Rightarrow> (Inl e, ctx)
      | Inr p0 \<Rightarrow>
     (case (if \<not> truthy p0
            then (let (q, h1) = alloc (heap ctx) [] in set_prop h1 parser ''policy'' (JRef q))
            else Inr (heap ctx)) of
        Inl e \<Rightarrow> (Inl e, ctx)
      | Inr h2 \<Rightarrow>
     (case get_prop h2 parser ''policy'' of
        Inl e \<Rightarrow> (Inl e, ctx\<lparr>heap := h2\<rparr>)
      | Inr pol \<Rightarrow>
     (case get_prop h2 pol ''parameter_name'' of
        Inl e \<Rightarrow> (Inl e, ctx\<lparr>heap := h2\<rparr>)
      | Inr cur \<Rightarrow>
     (case set_prop h2 pol ''parameter_name'' (if truthy cur then cur else JStr param_name) of
        Inl e \<Rightarrow> (Inl e, ctx\<lparr>heap := h2\<rparr>)
      | Inr h3 \<Rightarrow> (Inr (), ctx\<lparr>heap := h3\<rparr>))))))"

text \<open>The branch \<open>typeof parser === "object"\<close>.\<close>

definition object_parser ::
  "skill_code \<Rightarrow> jsval \<Rightarrow> string \<Rightarrow> jsval \<Rightarrow> bot_context \<Rightarrow> jsval outcome" where
  "object_parser code parser param_name param_value ctx =
     (case get_prop (heap ctx) parser ''type'' of
        Inl e \<Rightarrow> (Inl e, ctx)
      | Inr ty \<Rightarrow>
          if \<not> truthy ty
          then (Inl (JsError ''Error''
                  (''Parser object is invalid. Required property: '' @ [CHR 0x22] @ ''type''
                     @ [CHR 0x22] @ '' not found.'')), ctx)
          else
            (case add_parameter_name parser param_name ctx of
               (Inl e, ctx1) \<Rightarrow> (Inl e, ctx1)
             | (Inr u, ctx1) \<Rightarrow>
            (case get_prop (heap ctx1) parser ''type'' of
               Inl e \<Rightarrow> (Inl e, ctx1)
             | Inr ty1 \<Rightarrow>
            (case get_prop (heap ctx1) parser ''policy'' of
               Inl e \<Rightarrow> (Inl e, ctx1)
             | Inr pol \<Rightarrow>
            (case js_to_string ty1 of
               None \<Rightarrow> (Inl Unmodelled, ctx1)
             | Some key \<Rightarrow> call_builtin code key param_value pol ctx1)))))"

text \<open>
  The dispatch on \<open>typeof parser\<close>: \<open>"function"\<close> for \<open>JFun\<close>, \<open>"string"\<close> for
  \<open>JStr\<close>, \<open>"object"\<close> for \<open>JRef\<close>, \<open>JArr\<close> and \<open>JNull\<close>, and an invalid
  parser for a boolean, a number and \<open>undefined\<close>. The string branch reads the
  registry entry before it builds the policy object \<open>{parameter_name: param_name}\<close>.
  A built-in as the parser is not modelled.
\<close>

fun run_parser ::
  "skill_code \<Rightarrow> jsval \<Rightarrow> string \<Rightarrow> jsval \<Rightarrow> bot_context \<Rightarrow> jsval outcome" where
  "run_parser code (JFun f src) param_name param_value ctx = parser_fn code f param_value ctx"
| "run_parser code (JStr s) param_name param_value ctx =
     (case builtin_parser code s of
        None \<Rightarrow> (Inl (type_error ''Cannot read property 'parse' of undefined''), ctx)
      | Some bp \<Rightarrow>
          (let (q, h1) = alloc (heap ctx) [(''parameter_name'', JStr param_name)]
           in bp param_value (JRef q) (ctx\<lparr>heap := h1\<rparr>)))"
| "run_parser code (JRef a) param_name param_value ctx =
     object_parser code (JRef a) param_name param_value ctx"
| "run_parser code (JArr xs) param_name param_value ctx =
     object_parser code (JArr xs) param_name param_value ctx"
| "run_parser code JNull param_name param_value ctx =
     object_parser code JNull param_name param_value ctx"
| "run_parser code (JBuiltin b) param_name param_value ctx = (Inl Unmodelled, ctx)"
| "run_parser code parser param_name param_value ctx =
     (Inl (JsError ''Error'' (''Parser for the parameter: '' @ param_name @ '' is invalid.'')), ctx)"

definition parse_parameter ::
  "skill_code \<Rightarrow> string \<Rightarrow> jsval \<Rightarrow> bool \<Rightarrow> bot_context \<Rightarrow> jsval outcome" where
  "parse_parameter code param_name param_value strict ctx =
     (case json_stringify_error (heap ctx) param_value of
        Some e \<Rightarrow> (Inl e, ctx)
      | None \<Rightarrow>
     (case get_parameter ctx param_name of
        Inl e \<Rightarrow> (Inl e, ctx)
      | Inr param \<Rightarrow>
          if truthy (field param ''parser'')
          then run_parser code (field param ''parser'') param_name param_value ctx
          else
            (case get_prop (heap ctx) (skill ctx) (''parse_'' @ param_name) of
               Inl e \<Rightarrow> (Inl e, ctx)
             | Inr m \<Rightarrow>
                 if truthy m then run_parser code m param_name param_value ctx
                 else if strict then (Inl (JsError ''Error'' ''Parser not found.''), ctx)
                 else if param_value = JUndefined \<or> param_value = JNull \<or> param_value = JStr []
                 then (Inl (JsError ''Error'' ''Value is not set.''), ctx)
                 else (Inr param_value, ctx))))"

section \<open>The confirmation store: \<open>add_parameter\<close>\<close>

text \<open>
  The first half of \<open>add_parameter\<close>: the value goes into \<open>confirmed\<close>, onto a list
  when \<open>param.list\<close> is truthy. \<open>is_array\<close> is \<open>Array.isArray\<close>;
  \<open>confirmed_list\<close> is the array at \<open>confirmed[param_name]\<close>, empty when there
  is none. A write to \<open>confirmed.__proto__\<close> is not modelled.
\<close>

fun is_array :: "jsval \<Rightarrow> bool" where
  "is_array (JArr xs) = True"
| "is_array v = False"

fun elements :: "jsval \<Rightarrow> jsval list" where
  "elements (JArr xs) = xs"
| "elements v = []"

definition confirmed_list :: "bot_context \<Rightarrow> string \<Rightarrow> jsval list" where
  "confirmed_list ctx param_name = elements (field (confirmed ctx) param_name)"

definition unshift_confirmed :: "string \<Rightarrow> jsval \<Rightarrow> bot_context \<Rightarrow> bot_context" where
  "unshift_confirmed param_name param_value ctx =
     ctx\<lparr>confirmed :=
       AList.update param_name (JArr (param_value # confirmed_list ctx param_name)) (confirmed ctx)\<rparr>"

definition push_confirmed :: "string \<Rightarrow> jsval \<Rightarrow> bot_context \<Rightarrow> bot_context" where
  "push_confirmed param_name param_value ctx =
     ctx\<lparr>confirmed :=
       AList.update param_name (JArr (confirmed_list ctx param_name @ [param_value])) (confirmed ctx)\<rparr>"

definition invalid_list :: exn where
  "invalid_list = JsError ''Error'' ''list property should be boolean or object.''"

definition store_value :: "fields \<Rightarrow> string \<Rightarrow> jsval \<Rightarrow> bot_context \<Rightarrow> unit outcome" where
  "store_value param param_name param_value ctx =
     (let lst = field param ''list'' in
      if truthy lst then
        if \<not> (typeof lst = ''boolean'' \<or> typeof lst = ''object'')
        then (Inl invalid_list, ctx)
        else if param_name = ''__proto__'' then (Inl Unmodelled, ctx)
        else
          (let ctx1 = (if \<not> is_array (field (confirmed ctx) param_name)
                       then ctx\<lparr>confirmed := AList.update param_name (JArr []) (confirmed ctx)\<rparr>
                       else ctx)
           in if lst = JBool True then (Inr (), unshift_confirmed param_name param_value ctx1)
              else
                (case get_prop (heap ctx1) lst ''order'' of
                   Inl e \<Rightarrow> (Inl e, ctx1)
                 | Inr ord \<Rightarrow>
                     if ord = JStr ''new'' then (Inr (), unshift_confirmed param_name param_value ctx1)
                     else if ord = JStr ''old'' then (Inr (), push_confirmed param_name param_value ctx1)
                     else (Inr (), unshift_confirmed param_name param_value ctx1)))
      else if param_name = ''__proto__'' then (Inl Unmodelled, ctx)
      else (Inr (), ctx\<lparr>confirmed := AList.update param_name param_value (confirmed ctx)\<rparr>))"

text \<open>
  The second half: the history of confirmed names, the queue \<open>to_confirm\<close>
  (\<open>indexOf\<close> and \<open>splice(index, 1)\<close> remove the first occurrence) and
  \<open>confirming\<close>.
\<close>

definition mark_confirmed :: "string \<Rightarrow> bool \<Rightarrow> bot_context \<Rightarrow> bot_context" where
  "mark_confirmed param_name is_change ctx =
     (let ctx1 = (if \<not> is_change
                  then ctx\<lparr>previous_confirmed := param_name # previous_confirmed ctx,
                           previous_processed := param_name # previous_processed ctx\<rparr>
                  else ctx);
          ctx2 = (if param_name \<in> set (to_confirm ctx1)
                  then ctx1\<lparr>to_confirm := remove1 param_name (to_confirm ctx1)\<rparr>
                  else ctx1)
      in if confirming ctx2 = Some param_name then ctx2\<lparr>confirming := None\<rparr> else ctx2)"

definition add_parameter :: "string \<Rightarrow> jsval \<Rightarrow> bool \<Rightarrow> bot_context \<Rightarrow> unit outcome" where
  "add_parameter param_name param_value is_change ctx =
     (case json_stringify_error (heap ctx) param_value of
        Some e \<Rightarrow> (Inl e, ctx)
      | None \<Rightarrow>
     (case get_parameter ctx param_name of
        Inl e \<Rightarrow> (Inl e, ctx)
      | Inr param \<Rightarrow>
          (case store_value param param_name param_value ctx of
             (Inl e, ctx1) \<Rightarrow> (Inl e, ctx1)
           | (Inr u, ctx1) \<Rightarrow> (Inr (), mark_confirmed param_name is_change ctx1))))"

section \<open>The reaction dispatcher: \<open>react\<close>\<close>

text \<open>Calling a value as a reaction: a TypeError unless it is a function.\<close>

fun call_reaction ::
  "skill_code \<Rightarrow> jsval \<Rightarrow> exn option \<Rightarrow> jsval \<Rightarrow> bot_context \<Rightarrow> unit outcome" where
  "call_reaction code (JFun f src) error param_value ctx =
     (case reaction_fn code f error param_value ctx of
        (Inl e, ctx1) \<Rightarrow> (Inl e, ctx1)
      | (Inr r, ctx1) \<Rightarrow> (Inr (), ctx1))"
| "call_reaction code (JBuiltin b) error param_value ctx =
     (if typeof (JBuiltin b) = ''function'' then (Inl Unmodelled, ctx)
      else (Inl (type_error ''reaction is not a function''), ctx))"
| "call_reaction code v error param_value ctx = (Inl (type_error ''reaction is not a function''), ctx)"

definition react ::
  "skill_code \<Rightarrow> exn option \<Rightarrow> string \<Rightarrow> jsval \<Rightarrow> bot_context \<Rightarrow> unit outcome" where
  "react code error param_name param_value ctx =
     (if flag_pause ctx \<or> flag_exit ctx \<or> flag_init ctx then (Inr (), ctx)
      else
        (case get_parameter ctx param_name of
           Inl e \<Rightarrow> (Inl e, ctx)
         | Inr param \<Rightarrow>
             if truthy (field param ''reaction'')
             then call_reaction code (field param ''reaction'') error param_value ctx
             else
               (case get_prop (heap ctx) (skill ctx) (''reaction_'' @ param_name) of
                  Inl e \<Rightarrow> (Inl e, ctx)
                | Inr m \<Rightarrow>
                    if truthy m then call_reaction code m error param_value ctx
                    else (Inr (), ctx))))"

section \<open>\<open>apply_parameter\<close>\<close>

text \<open>
  The test \<open>e.name === "Error"\<close> of the \<open>catch\<close> block; reading \<open>name\<close> from a
  thrown \<open>null\<close> or \<open>undefined\<close> throws in its turn.
\<close>

fun is_rejection :: "store \<Rightarrow> exn \<Rightarrow> exn + bool" where
  "is_rejection h (JsError n m) = Inr (n = ''Error'')"
| "is_rejection h (Thrown v) =
     (case get_prop h v ''name'' of Inl e \<Rightarrow> Inl e | Inr x \<Rightarrow> Inr (x = JStr ''Error''))"
| "is_rejection h Unmodelled = Inr False"

definition apply_parameter ::
  "skill_code \<Rightarrow> string \<Rightarrow> jsval \<Rightarrow> bool \<Rightarrow> bool \<Rightarrow> bot_context \<Rightarrow> unit outcome" where
  "apply_parameter code param_name param_value parse do_react ctx =
     (case (if parse
            then (case parse_parameter code param_name param_value False ctx of
                    (Inr v, ctx1) \<Rightarrow> Inr (None, v, ctx1)
                  | (Inl e, ctx1) \<Rightarrow>
                      (case is_rejection (heap ctx1) e of
                         Inl e1 \<Rightarrow> Inl (e1, ctx1)
                       | Inr True \<Rightarrow> Inr (Some e, param_value, ctx1)
                       | Inr False \<Rightarrow> Inl (e, ctx1)))
            else Inr (None, param_value, ctx)) of
        Inl (e, ctx1) \<Rightarrow> (Inl e, ctx1)
      | Inr (parse_error, v, ctx1) \<Rightarrow>
          (case add_parameter param_name v False ctx1 of
             (Inl e, ctx2) \<Rightarrow> (Inl e, ctx2)
           | (Inr u, ctx2) \<Rightarrow>
               if do_react then react code parse_error param_name v ctx2 else (Inr (), ctx2)))"

section \<open>The change log: \<open>_save_param_change_log\<close>\<close>

text \<open>
  The four blocks that turn function-valued properties of the copied definition into
  text. \<open>message\<close>, \<open>condition\<close> and \<open>parser\<close> test \<open>typeof\<close>; \<open>reaction\<close>
  calls \<open>toString()\<close> on any truthy value. \<open>to_text k v param\<close> is
  \<open>param[k] = v.toString()\<close>.
\<close>

definition to_text :: "string \<Rightarrow> jsval \<Rightarrow> fields \<Rightarrow> exn + fields" where
  "to_text k v param =
     (case js_to_string v of
        None \<Rightarrow> Inl Unmodelled
      | Some s \<Rightarrow> Inr (AList.update k (JStr s) param))"

definition stringify_message :: "fields \<Rightarrow> exn + fields" where
  "stringify_message param =
     (if truthy (field param ''message'') \<or> truthy (field param ''message_to_confirm'')
      then
        if truthy (field param ''message'') \<and> typeof (field param ''message'') = ''function''
        then to_text ''message'' (field param ''message'') param
        else if truthy (field param ''message_to_confirm'')
                \<and> typeof (field param ''message_to_confirm'') = ''function''
        then to_text ''message'' (field param ''message_to_confirm'') param
        else Inr param
      else Inr param)"

definition stringify_condition :: "fields \<Rightarrow> exn + fields" where
  "stringify_condition param =
     (if truthy (field param ''condition'')
      then if typeof (field param ''condition'') = ''function''
           then to_text ''condition'' (field param ''condition'') param
           else Inr param
      else Inr param)"

definition stringify_parser :: "fields \<Rightarrow> exn + fields" where
  "stringify_parser param =
     (if truthy (field param ''parser'')
      then if typeof (field param ''parser'') = ''function''
           then to_text ''parser'' (field param ''parser'') param
           else Inr param
      else Inr param)"

definition stringify_reaction :: "fields \<Rightarrow> exn + fields" where
  "stringify_reaction param =
     (if truthy (field param ''reaction'')
      then to_text ''reaction'' (field param ''reaction'') param
      else Inr param)"

text \<open>The four blocks one after the other, stopping at the first that fails.\<close>

definition stringify_functions :: "fields \<Rightarrow> exn + fields" where
  "stringify_functions param =
     (case stringify_message param of Inl e \<Rightarrow> Inl e | Inr p1 \<Rightarrow>
     (case stringify_condition p1 of Inl e \<Rightarrow> Inl e | Inr p2 \<Rightarrow>
     (case stringify_parser p2 of Inl e \<Rightarrow> Inl e | Inr p3 \<Rightarrow>
      stringify_reaction p3)))"

text \<open>
  \<open>_save_param_change_log(param_type, param_name, param_orig)\<close>: the copy
  \<open>Object.assign({}, param_orig)\<close> is a new object, kept as its property list in the
  record that goes to the front of \<open>param_change_history\<close>. The history is started
  before the four blocks run.
\<close>

definition save_param_change_log ::
  "string \<Rightarrow> string \<Rightarrow> jsval \<Rightarrow> bot_context \<Rightarrow> unit outcome" where
  "save_param_change_log param_type param_name param_orig ctx =
     (case own_entries (heap ctx) param_orig of
        Inl e \<Rightarrow> (Inl e, ctx)
      | Inr es \<Rightarrow>
     (case assign_fields [] es of
        Inl e \<Rightarrow> (Inl e, ctx)
      | Inr param \<Rightarrow>
          (let history = (case param_change_history ctx of None \<Rightarrow> [] | Some hs \<Rightarrow> hs)
           in case stringify_functions param of
                Inl e \<Rightarrow> (Inl e, ctx\<lparr>param_change_history := Some history\<rparr>)
              | Inr param1 \<Rightarrow>
                  (Inr (), ctx\<lparr>param_change_history :=
                     Some (\<lparr>log_type = param_type, log_name = param_name, log_param = param1\<rparr>
                            # history)\<rparr>))))"

section \<open>The confirmation queue: \<open>collect\<close>\<close>

text \<open>
  The end of \<open>collect\<close>: with a truthy \<open>dedup\<close> the first occurrence of the name
  leaves \<open>to_confirm\<close>, then the name goes to the front.
\<close>

definition reserve :: "string \<Rightarrow> jsval \<Rightarrow> bot_context \<Rightarrow> bot_context" where
  "reserve param_name dedup ctx =
     (let ctx1 = (if param_name \<in> set (to_confirm ctx) \<and> truthy dedup
                  then ctx\<lparr>to_confirm := remove1 param_name (to_confirm ctx)\<rparr>
                  else ctx)
      in ctx1\<lparr>to_confirm := param_name # to_confirm ctx1\<rparr>)"

text \<open>
  \<open>Object.assign(skill[container], parameter_container)\<close> followed by
  \<open>_save_param_change_log(container, param_name, parameter_container[param_name])\<close>.
\<close>

definition override_parameter ::
  "string \<Rightarrow> jsval \<Rightarrow> fields \<Rightarrow> string \<Rightarrow> bot_context \<Rightarrow> unit outcome" where
  "override_parameter container arg es param_name ctx =
     (case get_prop (heap ctx) (skill ctx) container of
        Inl e \<Rightarrow> (Inl e, ctx)
      | Inr target \<Rightarrow>
     (case assign_object (heap ctx) target es of
        Inl e \<Rightarrow> (Inl e, ctx)
      | Inr h1 \<Rightarrow>
     (case get_prop h1 arg param_name of
        Inl e \<Rightarrow> (Inl e, ctx\<lparr>heap := h1\<rparr>)
      | Inr d \<Rightarrow> save_param_change_log container param_name d (ctx\<lparr>heap := h1\<rparr>))))"

text \<open>The branch \<open>typeof arg == "object"\<close> up to the change log.\<close>

definition collect_container :: "jsval \<Rightarrow> bot_context \<Rightarrow> string outcome" where
  "collect_container arg ctx =
     (case own_entries (heap ctx) arg of
        Inl e \<Rightarrow> (Inl e, ctx)
      | Inr es \<Rightarrow>
          if length es \<noteq> 1
          then (Inl (Thrown (JStr
                  ''Malformed parameter container object. You can pass just 1 parameter.'')), ctx)
          else
            (let param_name = fst (hd es) in
             case (case has_parameter ctx ''required_parameter'' param_name of
                     Inl e \<Rightarrow> (Inl e, ctx)
                   | Inr True \<Rightarrow> override_parameter ''required_parameter'' arg es param_name ctx
                   | Inr False \<Rightarrow>
                  (case has_parameter ctx ''optional_parameter'' param_name of
                     Inl e \<Rightarrow> (Inl e, ctx)
                   | Inr True \<Rightarrow> override_parameter ''optional_parameter'' arg es param_name ctx
                   | Inr False \<Rightarrow>
                  (case get_prop (heap ctx) (skill ctx) ''dynamic_parameter'' of
                     Inl e \<Rightarrow> (Inl e, ctx)
                   | Inr dp \<Rightarrow>
                  (case (if dp = JUndefined
                         then (let (q, h1) = alloc (heap ctx) []
                               in set_prop h1 (skill ctx) ''dynamic_parameter'' (JRef q))
                         else Inr (heap ctx)) of
                     Inl e \<Rightarrow> (Inl e, ctx)
                   | Inr h2 \<Rightarrow>
                       override_parameter ''dynamic_parameter'' arg es param_name
                         (ctx\<lparr>heap := h2\<rparr>))))) of
               (Inl e, ctx1) \<Rightarrow> (Inl e, ctx1)
             | (Inr u, ctx1) \<Rightarrow> (Inr param_name, ctx1)))"

text \<open>
  \<open>collect(arg, options)\<close>; \<open>dedup_option\<close> is the value of \<open>options.dedup\<close>,
  \<open>JUndefined\<close> when the option is left out. \<open>Object.keys(null)\<close> throws.
\<close>

definition collect :: "jsval \<Rightarrow> jsval \<Rightarrow> bot_context \<Rightarrow> unit outcome" where
  "collect arg dedup_option ctx =
     (let dedup = (if dedup_option = JUndefined \<or> dedup_option = JNull then JBool True
                   else dedup_option)
      in case arg of
           JStr s \<Rightarrow> (Inr (), reserve s dedup ctx)
         | _ \<Rightarrow>
             if typeof arg = ''object'' then
               if arg = JNull
               then (Inl (type_error ''Cannot convert undefined or null to object''), ctx)
               else
                 (case collect_container arg ctx of
                    (Inl e, ctx1) \<Rightarrow> (Inl e, ctx1)
                  | (Inr param_name, ctx1) \<Rightarrow> (Inr (), reserve param_name dedup ctx1))
             else (Inl (JsError ''Error'' ''Invalid argument.''), ctx))"

section \<open>An example skill\<close>

text \<open>
  A skill with four required parameters: \<open>param_a\<close> with a reaction, \<open>param_b\<close> with
  a parser function and a reaction, \<open>tags\<close> collecting a list (newest first) and
  parsed by the skill's method \<open>parse_tags\<close>, and \<open>zip\<close> parsed by a built-in parser
  given as an object. The parser functions accept numbers and reject every other value
  with an \<open>Error\<close>; the reaction calls \<open>bot.pause()\<close> when it is handed an error.
\<close>

definition example_store :: store where
  "example_store =
     [(0, [(''required_parameter'', JRef 1),
           (''parse_tags'', JFun 3 ''async (value) => { if (isNaN(value)) throw new Error(); return value; }'')]),
      (1, [(''param_a'', JRef 2), (''param_b'', JRef 3), (''tags'', JRef 4), (''zip'', JRef 6)]),
      (2, [(''reaction'', JFun 0 ''async (error, value, bot) => { if (error) bot.pause(); }'')]),
      (3, [(''parser'', JFun 1 ''async (value) => { if (isNaN(value)) throw new Error(); return value; }''),
           (''reaction'', JFun 0 ''async (error, value, bot) => { if (error) bot.pause(); }'')]),
      (4, [(''list'', JRef 5)]),
      (5, [(''order'', JStr ''new'')]),
      (6, [(''parser'', JRef 7)]),
      (7, [(''type'', JStr ''dialogflow'')])]"

definition example_context :: bot_context where
  "example_context =
     \<lparr>heap = example_store, skill = JRef 0, confirmed = [],
      to_confirm = [''param_a'', ''param_b''], confirming = Some ''param_b'',
      previous_confirmed = [], previous_processed = [], param_change_history = None,
      flag_pause = False, flag_exit = False, flag_init = False,
      switch_intent = JUndefined, sub_parameter = False, parent_parameter = None\<rparr>"

definition example_code :: skill_code where
  "example_code =
     \<lparr>parser_fn = (\<lambda>f v ctx. case v of JNum n \<Rightarrow> (Inr v, ctx)
                                | _ \<Rightarrow> (Inl (JsError ''Error'' ''not a number''), ctx)),
      reaction_fn = (\<lambda>f error v ctx. (Inr JUndefined, if error = None then ctx else pause ctx)),
      builtin_parser = (\<lambda>k. if k = ''dialogflow'' then Some (\<lambda>v policy ctx. (Inr v, ctx)) else None)\<rparr>"

text \<open>
  The same skill inside a sub-parameter context: \<open>address\<close> is the parent parameter
  and its \<open>sub_parameter\<close> container defines \<open>zip_code\<close>.
\<close>

definition example_sub_store :: store where
  "example_sub_store =
     [(0, [(''required_parameter'', JRef 1)]),
      (1, [(''address'', JRef 2)]),
      (2, [(''sub_parameter'', JRef 3)]),
      (3, [(''zip_code'', JRef 4)]),
      (4, [])]"

definition example_sub_context :: bot_context where
  "example_sub_context =
     example_context\<lparr>heap := example_sub_store, sub_parameter := True,
       parent_parameter := Some \<lparr>parent_type = ''required_parameter'', parent_name = ''address''\<rparr>\<rparr>"

section \<open>Notions used to state the properties\<close>

text \<open>
  A name is absent from a container of the skill when the skill has no such container,
  or the container is an object that has no property of that name.
\<close>

definition absent_from :: "bot_context \<Rightarrow> string \<Rightarrow> string \<Rightarrow> bool" where
  "absent_from ctx container n =
     (case get_prop (heap ctx) (skill ctx) container of
        Inr JUndefined \<Rightarrow> True
      | Inr (JRef a) \<Rightarrow> (case map_of (heap ctx) a of Some fs \<Rightarrow> map_of fs n = None | None \<Rightarrow> False)
      | _ \<Rightarrow> False)"








section \<open>Properties\<close>

lemmas registry_defs = get_parameter_def check_parameter_type_def has_parameter_def
  definition_path_def field_def assign_fields_def inherited_def object_prototype_names_def

text \<open>Reading a property that no object inherits: the own property, or \<open>undefined\<close>.\<close>

lemma inherited_none [simp]: "k \<notin> set object_prototype_names \<Longrightarrow> inherited k = JUndefined"
  by (simp add: inherited_def)


lemma not_inherited [simp]:
  "''name'' \<notin> set object_prototype_names"
  "''type'' \<notin> set object_prototype_names"
  "''policy'' \<notin> set object_prototype_names"
  "''parameter_name'' \<notin> set object_prototype_names"
  "''parser'' \<notin> set object_prototype_names"
  "''order'' \<notin> set object_prototype_names"
  "''required_parameter'' \<notin> set object_prototype_names"
  "''optional_parameter'' \<notin> set object_prototype_names"
  "''dynamic_parameter'' \<notin> set object_prototype_names"
  "''sub_parameter'' \<notin> set object_prototype_names"
  by (simp_all add: object_prototype_names_def)

lemma parse_method_not_inherited [simp]: "''parse_'' @ n \<notin> set object_prototype_names"
  by (auto simp: object_prototype_names_def)

subsection \<open>Flow flags stop the reaction\<close>

text \<open>
  Claim C5. When one of the flags \<open>_pause\<close>, \<open>_exit\<close>, \<open>_init\<close> is set,
  \<open>react(error, name, value)\<close> returns at once: the context is returned as it was, and
  the result does not depend on the skill's code, on the name (which need not be a
  parameter of the skill) or on the value. No parameter is resolved and no reaction is
  called.
\<close>

theorem react_skips_when_flow_flag_set:
  assumes "flag_pause ctx \<or> flag_exit ctx \<or> flag_init ctx"
  shows "react code error param_name param_value ctx = (Inr (), ctx)"
proof -
  from assms have "(if flag_pause ctx \<or> flag_exit ctx \<or> flag_init ctx then a else b) = a"
    for a b :: "unit outcome"
    by simp
  then show ?thesis
    unfolding react_def .
qed

theorem react_skips_when_flow_flag_set_witness:
  "flag_exit (exit example_context) \<and>
   get_parameter (exit example_context) ''nowhere'' = Inl (not_found ''nowhere'') \<and>
   react example_code None ''nowhere'' (JStr ''hello'') (exit example_context)
     = (Inr (), exit example_context)"
proof -
  have flag: "flag_exit (exit example_context)"
    by (simp add: exit_def)
  then have some: "flag_pause (exit example_context) \<or> flag_exit (exit example_context)
          \<or> flag_init (exit example_context)"
    by simp
  have gone: "get_parameter (exit example_context) ''nowhere'' = Inl (not_found ''nowhere'')"
    by code_simp
  from react_skips_when_flow_flag_set [OF some] flag gone show ?thesis
    by simp
qed

subsection \<open>Switching the skill\<close>



subsection \<open>What a commit leaves alone\<close>





subsection \<open>The bookkeeping of a commit\<close>



subsection \<open>Queueing a parameter twice\<close>

lemma count_list_remove1:
  "count_list (remove1 x xs) x = count_list xs x - 1"
  by (induction xs) auto

text \<open>
  Claim C7 fails as stated: \<open>collect\<close> removes one earlier occurrence only, and
  \<open>collect(name, {dedup: false})\<close> can queue a name several times. Starting from an
  empty queue, two calls with \<open>dedup: false\<close> followed by two calls with the default
  leave \<open>x\<close> in the queue twice.
\<close>

theorem collect_twice_counterexample:
  "to_confirm (snd (collect (JStr ''x'') JUndefined (snd (collect (JStr ''x'') JUndefined
     (snd (collect (JStr ''x'') (JBool False) (snd (collect (JStr ''x'') (JBool False)
        (example_context\<lparr>to_confirm := []\<rparr>))))))))) = [''x'', ''x'']"
  by (simp add: collect_def reserve_def Let_def)

text \<open>
  Claim C7 as amended. \<open>collect(x)\<close> with the default \<open>dedup\<close> always succeeds, takes
  the first earlier occurrence of \<open>x\<close> out of \<open>to_confirm\<close> and puts \<open>x\<close> at the
  front. A second call gives the same result as the first, so the queue after two calls
  is the queue after one. When \<open>x\<close> was in the queue at most once before, it is in the
  queue exactly once afterwards.
\<close>

theorem collect_twice_default_dedup:
  "collect (JStr x) JUndefined ctx
     = (Inr (), ctx\<lparr>to_confirm := x # remove1 x (to_confirm ctx)\<rparr>) \<and>
   collect (JStr x) JUndefined (snd (collect (JStr x) JUndefined ctx))
     = collect (JStr x) JUndefined ctx \<and>
   (count_list (to_confirm ctx) x \<le> 1 \<longrightarrow>
      count_list (to_confirm (snd (collect (JStr x) JUndefined
                    (snd (collect (JStr x) JUndefined ctx))))) x = 1)"
proof -
  have one: "collect (JStr x) JUndefined c
               = (Inr (), c\<lparr>to_confirm := x # remove1 x (to_confirm c)\<rparr>)" for c
    by (simp add: collect_def reserve_def Let_def remove1_idem)
  have two: "collect (JStr x) JUndefined (snd (collect (JStr x) JUndefined ctx))
               = collect (JStr x) JUndefined ctx"
    unfolding one by simp
  have "count_list (x # remove1 x (to_confirm ctx)) x = 1"
    if "count_list (to_confirm ctx) x \<le> 1"
    using that by (simp add: count_list_remove1)
  with one two show ?thesis by simp
qed

theorem collect_twice_default_dedup_witness:
  "count_list (to_confirm example_context) ''param_b'' \<le> 1 \<and>
   to_confirm (snd (collect (JStr ''param_b'') JUndefined
      (snd (collect (JStr ''param_b'') JUndefined example_context))))
     = [''param_b'', ''param_a''] \<and>
   count_list (to_confirm (snd (collect (JStr ''param_b'') JUndefined
      (snd (collect (JStr ''param_b'') JUndefined example_context))))) ''param_b'' = 1"
proof -
  have h: "count_list (to_confirm example_context) ''param_b'' \<le> 1"
    by (simp add: example_context_def)
  from collect_twice_default_dedup [of "''param_b''" example_context] h
  show ?thesis by (simp add: example_context_def collect_def reserve_def Let_def)
qed

subsection \<open>Names that no container defines\<close>

lemma absent_from_has_parameter:
  assumes "absent_from ctx container n" and "n \<notin> set object_prototype_names"
  shows "has_parameter ctx container n = Inr False"
proof (cases "get_prop (heap ctx) (skill ctx) container")
  case (Inl e)
  with assms(1) show ?thesis by (simp add: absent_from_def)
next
  case (Inr c)
  show ?thesis
  proof (cases c)
    case JUndefined
    with Inr show ?thesis by (simp add: has_parameter_def)
  next
    case (JRef a)
    with Inr assms(1) obtain fs where "map_of (heap ctx) a = Some fs" "map_of fs n = None"
      by (auto simp: absent_from_def split: option.splits)
    with Inr JRef assms(2) show ?thesis by (simp add: has_parameter_def)
  qed (use Inr assms(1) in \<open>simp_all add: absent_from_def\<close>)
qed

text \<open>
  Claim C2 as amended. Let \<open>n\<close> be absent from the required, the optional and the
  dynamic container, and not the name of a member that every object inherits. Then
  \<open>check_parameter_type(n)\<close> is \<open>"sub_parameter"\<close> when the flag \<open>_sub_parameter\<close> is
  set and \<open>"not_applicable"\<close> when it is not; in the second case \<open>get_parameter(n)\<close>
  fails with the error that the parameter is not found.
\<close>

theorem unknown_name_is_not_applicable:
  assumes "absent_from ctx ''required_parameter'' n"
    and "absent_from ctx ''optional_parameter'' n"
    and "absent_from ctx ''dynamic_parameter'' n"
    and "n \<notin> set object_prototype_names"
  shows "check_parameter_type ctx n
           = Inr (if sub_parameter ctx then ''sub_parameter'' else ''not_applicable'') \<and>
         (\<not> sub_parameter ctx \<longrightarrow> get_parameter ctx n = Inl (not_found n))"
proof -
  have ty: "check_parameter_type ctx n
           = Inr (if sub_parameter ctx then ''sub_parameter'' else ''not_applicable'')"
    by (simp add: check_parameter_type_def absent_from_has_parameter [OF assms(1,4)]
        absent_from_has_parameter [OF assms(2,4)] absent_from_has_parameter [OF assms(3,4)])
  then have "get_parameter ctx n = Inl (not_found n)" if "\<not> sub_parameter ctx"
    using that by (simp add: get_parameter_def)
  with ty show ?thesis by blast
qed

theorem unknown_name_is_not_applicable_witness:
  "absent_from example_context ''required_parameter'' ''nowhere'' \<and>
   absent_from example_context ''optional_parameter'' ''nowhere'' \<and>
   absent_from example_context ''dynamic_parameter'' ''nowhere'' \<and>
   ''nowhere'' \<notin> set object_prototype_names \<and>
   \<not> sub_parameter example_context \<and>
   check_parameter_type example_context ''nowhere'' = Inr ''not_applicable'' \<and>
   get_parameter example_context ''nowhere'' = Inl (not_found ''nowhere'') \<and>
   absent_from example_sub_context ''required_parameter'' ''nowhere'' \<and>
   absent_from example_sub_context ''optional_parameter'' ''nowhere'' \<and>
   absent_from example_sub_context ''dynamic_parameter'' ''nowhere'' \<and>
   sub_parameter example_sub_context \<and>
   check_parameter_type example_sub_context ''nowhere'' = Inr ''sub_parameter''"
proof -
  have a: "absent_from example_context ''required_parameter'' ''nowhere''"
    and b: "absent_from example_context ''optional_parameter'' ''nowhere''"
    and c: "absent_from example_context ''dynamic_parameter'' ''nowhere''"
    by code_simp+
  have d: "''nowhere'' \<notin> set object_prototype_names"
    by code_simp
  have e: "\<not> sub_parameter example_context"
    by (simp add: example_context_def)
  have a': "absent_from example_sub_context ''required_parameter'' ''nowhere''"
    and b': "absent_from example_sub_context ''optional_parameter'' ''nowhere''"
    and c': "absent_from example_sub_context ''dynamic_parameter'' ''nowhere''"
    by code_simp+
  have e': "sub_parameter example_sub_context"
    by (simp add: example_sub_context_def)
  from unknown_name_is_not_applicable [OF a b c d] e
  have plain: "check_parameter_type example_context ''nowhere'' = Inr ''not_applicable''"
    "get_parameter example_context ''nowhere'' = Inl (not_found ''nowhere'')"
    by simp_all
  from unknown_name_is_not_applicable [OF a' b' c' d] e'
  have inside: "check_parameter_type example_sub_context ''nowhere'' = Inr ''sub_parameter''"
    by simp
  from a b c d e plain a' b' c' e' inside show ?thesis
    by blast
qed

text \<open>
  Claim C2 fails as stated: \<open>check_parameter_type\<close> never looks into the
  sub-parameter container, it only tests the flag \<open>_sub_parameter\<close>. In the
  sub-parameter context of the example, \<open>nowhere\<close> is in none of the containers, the
  active sub-parameter container (which holds \<open>zip_code\<close> alone) included, and yet it
  is classified \<open>"sub_parameter"\<close> and \<open>get_parameter\<close> returns an object for it.
\<close>

theorem unknown_name_in_sub_parameter_context:
  "absent_from example_sub_context ''required_parameter'' ''nowhere'' \<and>
   absent_from example_sub_context ''optional_parameter'' ''nowhere'' \<and>
   absent_from example_sub_context ''dynamic_parameter'' ''nowhere'' \<and>
   get_path (heap example_sub_context) (skill example_sub_context)
     [''required_parameter'', ''address'', ''sub_parameter''] = Inr (JRef 3) \<and>
   map_of (heap example_sub_context) 3 = Some [(''zip_code'', JRef 4)] \<and>
   check_parameter_type example_sub_context ''nowhere'' = Inr ''sub_parameter'' \<and>
   get_parameter example_sub_context ''nowhere''
     = Inr [(''name'', JStr ''nowhere''), (''type'', JStr ''sub_parameter'')]"
  by code_simp

text \<open>
  A name that every object inherits is found in the first container there is, though
  no parameter of that name is defined: the read \<open>required_parameter[param_name]\<close>
  gives the inherited member, which is truthy. The definition copied by
  \<open>get_parameter\<close> is then a built-in, with no properties to copy.
\<close>

lemma inherited_name_is_found:
  "absent_from example_context ''required_parameter'' ''constructor'' \<and>
   check_parameter_type example_context ''constructor'' = Inr ''required_parameter'' \<and>
   get_parameter example_context ''constructor''
     = Inr [(''name'', JStr ''constructor''), (''type'', JStr ''required_parameter'')] \<and>
   check_parameter_type example_context ''__proto__'' = Inr ''required_parameter''"
  by code_simp

subsection \<open>Resolution of the parser\<close>









subsection \<open>Committing to a list parameter\<close>



















subsection \<open>The change log\<close>

text \<open>
  The shallow copy \<open>Object.assign(target, source)\<close>, read property by property: a
  property of the source wins over the property of that name of the target.
\<close>

lemma field_update: "field (AList.update k v al) k' = (if k' = k then v else field al k')"
  by (simp add: field_def update_conv')

lemma map_of_fold_update:
  "distinct (map fst es) \<Longrightarrow>
   map_of (fold (\<lambda>(k, v). AList.update k v) es t) = map_of t ++ map_of es"
proof (induction es arbitrary: t)
  case Nil
  show ?case by simp
next
  case (Cons e es)
  obtain k v where e: "e = (k, v)" by (cases e)
  from Cons.prems e have fresh_key: "map_of es k = None" and d: "distinct (map fst es)"
    by (auto simp: map_of_eq_None_iff)
  have "fold (\<lambda>(k, v). AList.update k v) (e # es) t
          = fold (\<lambda>(k, v). AList.update k v) es (AList.update k v t)"
    by (simp add: e)
  also have "map_of \<dots> = map_of (AList.update k v t) ++ map_of es"
    using d by (rule Cons.IH)
  also have "\<dots> = map_of t ++ map_of (e # es)"
    using fresh_key by (auto simp: e update_conv' map_add_def fun_eq_iff split: option.splits)
  finally show ?case .
qed

lemma assign_fields_Inr:
  assumes "''__proto__'' \<notin> fst ` set fs"
  obtains copy where "assign_fields t (AList.clearjunk fs) = Inr copy"
    and "\<And>k. field copy k = (case map_of fs k of Some v \<Rightarrow> v | None \<Rightarrow> field t k)"
proof
  from assms have "''__proto__'' \<notin> fst ` set (AList.clearjunk fs)"
    by (simp add: dom_clearjunk)
  then show "assign_fields t (AList.clearjunk fs)
               = Inr (fold (\<lambda>(k, v). AList.update k v) (AList.clearjunk fs) t)"
    by (simp add: assign_fields_def)
  show "field (fold (\<lambda>(k, v). AList.update k v) (AList.clearjunk fs) t) k
          = (case map_of fs k of Some v \<Rightarrow> v | None \<Rightarrow> field t k)" for k
    by (simp add: field_def map_of_fold_update distinct_clearjunk map_of_clearjunk map_add_def
        split: option.splits)
qed

lemma shallow_copy:
  assumes "''__proto__'' \<notin> fst ` set fs"
  obtains copy where "assign_fields [] (AList.clearjunk fs) = Inr copy"
    and "\<And>k. field copy k = field fs k"
proof -
  from assms obtain copy where c: "assign_fields [] (AList.clearjunk fs) = Inr copy"
    and f: "\<And>k. field copy k = (case map_of fs k of Some v \<Rightarrow> v | None \<Rightarrow> field [] k)"
    by (rule assign_fields_Inr [where t = "[]"]) blast
  have "field copy k = field fs k" for k
    by (simp add: f) (simp add: field_def split: option.splits)
  with c show ?thesis
    by (rule that)
qed

lemma function_truthy: "typeof v = ''function'' \<Longrightarrow> truthy v"
  by (cases v) simp_all

lemma function_text: "typeof v = ''function'' \<Longrightarrow> \<exists>s. js_to_string v = Some s"
  by (cases v) simp_all

lemma to_text_function:
  "typeof v = ''function'' \<Longrightarrow>
   to_text k v p = Inr (AList.update k (JStr (the (js_to_string v))) p)"
  using function_text [of v] by (auto simp: to_text_def)

lemma stringify_message_eq:
  "stringify_message p =
     Inr (if typeof (field p ''message'') = ''function''
          then AList.update ''message'' (JStr (the (js_to_string (field p ''message'')))) p
          else if typeof (field p ''message_to_confirm'') = ''function''
          then AList.update ''message''
                 (JStr (the (js_to_string (field p ''message_to_confirm'')))) p
          else p)"
  by (simp add: stringify_message_def to_text_function function_truthy)

lemma stringify_condition_eq:
  "stringify_condition p =
     Inr (if typeof (field p ''condition'') = ''function''
          then AList.update ''condition'' (JStr (the (js_to_string (field p ''condition'')))) p
          else p)"
  by (simp add: stringify_condition_def to_text_function function_truthy)

lemma stringify_parser_eq:
  "stringify_parser p =
     Inr (if typeof (field p ''parser'') = ''function''
          then AList.update ''parser'' (JStr (the (js_to_string (field p ''parser'')))) p
          else p)"
  by (simp add: stringify_parser_def to_text_function function_truthy)

lemma stringify_reaction_eq:
  "js_to_string (field p ''reaction'') = Some r \<Longrightarrow>
   stringify_reaction p =
     Inr (if truthy (field p ''reaction'') then AList.update ''reaction'' (JStr r) p else p)"
  by (simp add: stringify_reaction_def to_text_def)

text \<open>
  The four blocks together, property by property: each block changes one property
  and reads none that an earlier block has changed.
\<close>

lemma stringify_functions_fields:
  assumes "js_to_string (field p ''reaction'') = Some r"
  obtains q where "stringify_functions p = Inr q"
    and "\<And>k. field q k =
          (if k = ''message'' \<and> typeof (field p ''message'') = ''function''
           then JStr (the (js_to_string (field p ''message'')))
           else if k = ''message'' \<and> typeof (field p ''message_to_confirm'') = ''function''
           then JStr (the (js_to_string (field p ''message_to_confirm'')))
           else if k = ''condition'' \<and> typeof (field p ''condition'') = ''function''
           then JStr (the (js_to_string (field p ''condition'')))
           else if k = ''parser'' \<and> typeof (field p ''parser'') = ''function''
           then JStr (the (js_to_string (field p ''parser'')))
           else if k = ''reaction'' \<and> truthy (field p ''reaction'')
           then JStr r
           else field p k)"
proof -
  obtain p1 where p1: "stringify_message p = Inr p1"
    and f1: "\<And>k. field p1 k =
          (if k = ''message'' \<and> typeof (field p ''message'') = ''function''
           then JStr (the (js_to_string (field p ''message'')))
           else if k = ''message'' \<and> typeof (field p ''message_to_confirm'') = ''function''
           then JStr (the (js_to_string (field p ''message_to_confirm'')))
           else field p k)"
    by (simp add: stringify_message_eq field_update)
  obtain p2 where p2: "stringify_condition p1 = Inr p2"
    and f2: "\<And>k. field p2 k =
          (if k = ''condition'' \<and> typeof (field p1 ''condition'') = ''function''
           then JStr (the (js_to_string (field p1 ''condition'')))
           else field p1 k)"
    by (simp add: stringify_condition_eq field_update)
  obtain p3 where p3: "stringify_parser p2 = Inr p3"
    and f3: "\<And>k. field p3 k =
          (if k = ''parser'' \<and> typeof (field p2 ''parser'') = ''function''
           then JStr (the (js_to_string (field p2 ''parser'')))
           else field p2 k)"
    by (simp add: stringify_parser_eq field_update)
  have r3: "field p3 ''reaction'' = field p ''reaction''"
    by (simp add: f1 f2 f3)
  with assms have "js_to_string (field p3 ''reaction'') = Some r"
    by simp
  then obtain q where q: "stringify_reaction p3 = Inr q"
    and f4: "\<And>k. field q k =
          (if k = ''reaction'' \<and> truthy (field p3 ''reaction'') then JStr r else field p3 k)"
    by (simp add: stringify_reaction_eq field_update)
  have run: "stringify_functions p = Inr q"
    by (simp add: stringify_functions_def p1 p2 p3 q)
  have c: "field p1 ''condition'' = field p ''condition''"
    and pa: "field p2 ''parser'' = field p ''parser''"
    by (simp_all add: f1 f2)
  show ?thesis
  proof (rule that [OF run])
    fix k
    show "field q k =
          (if k = ''message'' \<and> typeof (field p ''message'') = ''function''
           then JStr (the (js_to_string (field p ''message'')))
           else if k = ''message'' \<and> typeof (field p ''message_to_confirm'') = ''function''
           then JStr (the (js_to_string (field p ''message_to_confirm'')))
           else if k = ''condition'' \<and> typeof (field p ''condition'') = ''function''
           then JStr (the (js_to_string (field p ''condition'')))
           else if k = ''parser'' \<and> typeof (field p ''parser'') = ''function''
           then JStr (the (js_to_string (field p ''parser'')))
           else if k = ''reaction'' \<and> truthy (field p ''reaction'')
           then JStr r
           else field p k)"
      unfolding f4 r3 f3 pa f2 c f1 by simp
  qed
qed

text \<open>
  Claim C9 as amended. Take a definition that is an object of the store, has no
  property named \<open>__proto__\<close>, and whose \<open>reaction\<close> is absent or a value of which
  \<open>toString()\<close> is known (a function, a string, a boolean, a number). Then
  \<open>_save_param_change_log(type, name, def)\<close> succeeds and puts the record
  \<open>{type, name, param}\<close> in front of \<open>param_change_history\<close> (starting the history
  when there is none), changing nothing else. In the logged copy, each of \<open>message\<close>,
  \<open>condition\<close>, \<open>parser\<close>, \<open>reaction\<close> that is a function in the definition is the
  source text of that function. When \<open>message\<close> is not a function and
  \<open>message_to_confirm\<close> is one, the logged \<open>message\<close> is the source text of
  \<open>message_to_confirm\<close>, whatever \<open>message\<close> was. A truthy \<open>reaction\<close> is logged as
  the text of its \<open>toString()\<close>, function or not. Every other property that is not a
  function is logged as it is, and every property other than the four is logged as
  it is, function or not.
\<close>

theorem change_log_record:
  assumes "map_of (heap ctx) a = Some def"
    and "''__proto__'' \<notin> fst ` set def"
    and "js_to_string (field def ''reaction'') = Some r"
  shows "\<exists>logged.
     save_param_change_log param_type param_name (JRef a) ctx
       = (Inr (), ctx\<lparr>param_change_history :=
            Some (\<lparr>log_type = param_type, log_name = param_name, log_param = logged\<rparr>
                   # (case param_change_history ctx of None \<Rightarrow> [] | Some hs \<Rightarrow> hs))\<rparr>) \<and>
     (\<forall>k f src. k \<in> set [''message'', ''condition'', ''parser'', ''reaction'']
                 \<and> field def k = JFun f src \<longrightarrow> field logged k = JStr src) \<and>
     (\<forall>f src. typeof (field def ''message'') \<noteq> ''function''
                 \<and> field def ''message_to_confirm'' = JFun f src
               \<longrightarrow> field logged ''message'' = JStr src) \<and>
     (truthy (field def ''reaction'') \<longrightarrow> field logged ''reaction'' = JStr r) \<and>
     (\<forall>k. typeof (field def k) \<noteq> ''function''
          \<and> \<not> (k = ''message'' \<and> typeof (field def ''message_to_confirm'') = ''function'')
          \<and> \<not> (k = ''reaction'' \<and> truthy (field def ''reaction''))
          \<longrightarrow> field logged k = field def k) \<and>
     (\<forall>k. k \<notin> set [''message'', ''condition'', ''parser'', ''reaction'']
          \<longrightarrow> field logged k = field def k)"
proof -
  from assms(2) obtain copy where copy: "assign_fields [] (AList.clearjunk def) = Inr copy"
    and same: "\<And>k. field copy k = field def k"
    by (rule shallow_copy) blast
  from assms(3) have "js_to_string (field copy ''reaction'') = Some r"
    by (simp only: same)
  then obtain logged where logged: "stringify_functions copy = Inr logged"
    and fields: "\<And>k. field logged k =
          (if k = ''message'' \<and> typeof (field def ''message'') = ''function''
           then JStr (the (js_to_string (field def ''message'')))
           else if k = ''message'' \<and> typeof (field def ''message_to_confirm'') = ''function''
           then JStr (the (js_to_string (field def ''message_to_confirm'')))
           else if k = ''condition'' \<and> typeof (field def ''condition'') = ''function''
           then JStr (the (js_to_string (field def ''condition'')))
           else if k = ''parser'' \<and> typeof (field def ''parser'') = ''function''
           then JStr (the (js_to_string (field def ''parser'')))
           else if k = ''reaction'' \<and> truthy (field def ''reaction'')
           then JStr r
           else field def k)"
    by (rule stringify_functions_fields) (simp only: same)
  have run: "save_param_change_log param_type param_name (JRef a) ctx
       = (Inr (), ctx\<lparr>param_change_history :=
            Some (\<lparr>log_type = param_type, log_name = param_name, log_param = logged\<rparr>
                   # (case param_change_history ctx of None \<Rightarrow> [] | Some hs \<Rightarrow> hs))\<rparr>)"
    by (simp add: save_param_change_log_def assms(1) copy logged Let_def)
  have fns: "field logged k = JStr src"
    if "k \<in> set [''message'', ''condition'', ''parser'', ''reaction'']
          \<and> field def k = JFun f src" for k f src
  proof -
    from that consider "k = ''message''" | "k = ''condition''" | "k = ''parser''"
      | "k = ''reaction''"
      by auto
    then show ?thesis
    proof cases
      case 4
      with that assms(3) have "r = src"
        by simp
      with 4 that show ?thesis
        by (simp add: fields)
    qed (use that in \<open>simp_all add: fields\<close>)
  qed
  have confirm: "field logged ''message'' = JStr src"
    if "typeof (field def ''message'') \<noteq> ''function''
          \<and> field def ''message_to_confirm'' = JFun f src" for f src
    using that by (simp add: fields)
  have reaction: "field logged ''reaction'' = JStr r" if "truthy (field def ''reaction'')"
    using that by (simp add: fields)
  have others: "field logged k = field def k"
    if "typeof (field def k) \<noteq> ''function''
          \<and> \<not> (k = ''message'' \<and> typeof (field def ''message_to_confirm'') = ''function'')
          \<and> \<not> (k = ''reaction'' \<and> truthy (field def ''reaction''))" for k
    using that by (simp add: fields) blast
  have rest: "field logged k = field def k"
    if "k \<notin> set [''message'', ''condition'', ''parser'', ''reaction'']" for k
    using that by (simp add: fields)
  show ?thesis
  proof (intro exI [of _ logged] conjI allI impI)
    show "save_param_change_log param_type param_name (JRef a) ctx
       = (Inr (), ctx\<lparr>param_change_history :=
            Some (\<lparr>log_type = param_type, log_name = param_name, log_param = logged\<rparr>
                   # (case param_change_history ctx of None \<Rightarrow> [] | Some hs \<Rightarrow> hs))\<rparr>)"
      by (rule run)
  qed (erule fns confirm reaction others rest)+
qed

text \<open>
  Two definitions. The first has an object as \<open>message\<close>, two functions as \<open>parser\<close>
  and \<open>reaction\<close>, and \<open>list: true\<close>. The second has a string as \<open>message\<close>, a
  function as \<open>message_to_confirm\<close> and the string \<open>none\<close> as \<open>reaction\<close>.
\<close>

theorem change_log_record_witness:
  "map_of (heap (example_context\<lparr>heap :=
       (8, [(''message'', JRef 9), (''parser'', JFun 1 ''(value) => value''),
            (''list'', JBool True), (''reaction'', JFun 2 ''(error, value) => {}'')])
       # example_store\<rparr>)) 8
     = Some [(''message'', JRef 9), (''parser'', JFun 1 ''(value) => value''),
             (''list'', JBool True), (''reaction'', JFun 2 ''(error, value) => {}'')] \<and>
   (\<exists>logged.
      save_param_change_log ''dynamic_parameter'' ''param_c'' (JRef 8)
        (example_context\<lparr>heap :=
           (8, [(''message'', JRef 9), (''parser'', JFun 1 ''(value) => value''),
                (''list'', JBool True), (''reaction'', JFun 2 ''(error, value) => {}'')])
           # example_store\<rparr>)
      = (Inr (), example_context\<lparr>heap :=
           (8, [(''message'', JRef 9), (''parser'', JFun 1 ''(value) => value''),
                (''list'', JBool True), (''reaction'', JFun 2 ''(error, value) => {}'')])
           # example_store,
           param_change_history :=
             Some [\<lparr>log_type = ''dynamic_parameter'', log_name = ''param_c'',
                    log_param = logged\<rparr>]\<rparr>) \<and>
      field logged ''parser'' = JStr ''(value) => value'' \<and>
      field logged ''reaction'' = JStr ''(error, value) => {}'' \<and>
      field logged ''message'' = JRef 9 \<and>
      field logged ''list'' = JBool True) \<and>
   (\<exists>logged.
      save_param_change_log ''required_parameter'' ''param_d'' (JRef 8)
        (example_context\<lparr>heap :=
           (8, [(''message'', JStr ''which one?''),
                (''message_to_confirm'', JFun 2 ''async () => ask()''),
                (''reaction'', JStr ''none'')])
           # example_store\<rparr>)
      = (Inr (), example_context\<lparr>heap :=
           (8, [(''message'', JStr ''which one?''),
                (''message_to_confirm'', JFun 2 ''async () => ask()''),
                (''reaction'', JStr ''none'')])
           # example_store,
           param_change_history :=
             Some [\<lparr>log_type = ''required_parameter'', log_name = ''param_d'',
                    log_param = logged\<rparr>]\<rparr>) \<and>
      field logged ''message'' = JStr ''async () => ask()'' \<and>
      field logged ''reaction'' = JStr ''none'')"
proof -
  let ?def = "[(''message'', JRef 9), (''parser'', JFun 1 ''(value) => value''),
               (''list'', JBool True), (''reaction'', JFun 2 ''(error, value) => {}'')]"
  let ?c = "example_context\<lparr>heap := (8, ?def) # example_store\<rparr>"
  let ?def2 = "[(''message'', JStr ''which one?''),
                (''message_to_confirm'', JFun 2 ''async () => ask()''),
                (''reaction'', JStr ''none'')]"
  let ?c2 = "example_context\<lparr>heap := (8, ?def2) # example_store\<rparr>"
  have h: "map_of (heap ?c) 8 = Some ?def" and h2: "map_of (heap ?c2) 8 = Some ?def2"
    by simp_all
  have own: "''__proto__'' \<notin> fst ` set ?def" and own2: "''__proto__'' \<notin> fst ` set ?def2"
    by simp_all
  have re: "js_to_string (field ?def ''reaction'') = Some ''(error, value) => {}''"
    and re2: "js_to_string (field ?def2 ''reaction'') = Some ''none''"
    by (simp_all add: field_def)
  have none: "param_change_history ?c = None" "param_change_history ?c2 = None"
    by (simp_all add: example_context_def)
  from change_log_record [OF h own re, of "''dynamic_parameter''" "''param_c''"]
  obtain logged where
    run: "save_param_change_log ''dynamic_parameter'' ''param_c'' (JRef 8) ?c
       = (Inr (), ?c\<lparr>param_change_history :=
            Some (\<lparr>log_type = ''dynamic_parameter'', log_name = ''param_c'', log_param = logged\<rparr>
                   # (case param_change_history ?c of None \<Rightarrow> [] | Some hs \<Rightarrow> hs))\<rparr>)"
    and fns: "\<And>k f src. k \<in> set [''message'', ''condition'', ''parser'', ''reaction'']
                 \<and> field ?def k = JFun f src \<Longrightarrow> field logged k = JStr src"
    and others: "\<And>k. typeof (field ?def k) \<noteq> ''function''
          \<and> \<not> (k = ''message'' \<and> typeof (field ?def ''message_to_confirm'') = ''function'')
          \<and> \<not> (k = ''reaction'' \<and> truthy (field ?def ''reaction''))
          \<Longrightarrow> field logged k = field ?def k"
    and rest: "\<And>k. k \<notin> set [''message'', ''condition'', ''parser'', ''reaction'']
          \<Longrightarrow> field logged k = field ?def k"
    by blast
  have p: "field logged ''parser'' = JStr ''(value) => value''"
    by (rule fns [of _ 1]) (simp add: field_def)
  have r: "field logged ''reaction'' = JStr ''(error, value) => {}''"
    by (rule fns [of _ 2]) (simp add: field_def)
  have "field logged ''message'' = field ?def ''message''"
    by (rule others) (simp add: field_def)
  then have m: "field logged ''message'' = JRef 9"
    by (simp add: field_def)
  have "field logged ''list'' = field ?def ''list''"
    by (rule rest) simp
  then have l: "field logged ''list'' = JBool True"
    by (simp add: field_def)
  from run have run': "save_param_change_log ''dynamic_parameter'' ''param_c'' (JRef 8) ?c
       = (Inr (), ?c\<lparr>param_change_history :=
            Some [\<lparr>log_type = ''dynamic_parameter'', log_name = ''param_c'', log_param = logged\<rparr>]\<rparr>)"
    by (simp only: none option.case)
  from run' p r m l have first: "\<exists>logged.
      save_param_change_log ''dynamic_parameter'' ''param_c'' (JRef 8) ?c
      = (Inr (), ?c\<lparr>param_change_history :=
             Some [\<lparr>log_type = ''dynamic_parameter'', log_name = ''param_c'',
                    log_param = logged\<rparr>]\<rparr>) \<and>
      field logged ''parser'' = JStr ''(value) => value'' \<and>
      field logged ''reaction'' = JStr ''(error, value) => {}'' \<and>
      field logged ''message'' = JRef 9 \<and>
      field logged ''list'' = JBool True"
    by blast
  from change_log_record [OF h2 own2 re2, of "''required_parameter''" "''param_d''"]
  obtain logged2 where
    run2: "save_param_change_log ''required_parameter'' ''param_d'' (JRef 8) ?c2
       = (Inr (), ?c2\<lparr>param_change_history :=
            Some (\<lparr>log_type = ''required_parameter'', log_name = ''param_d'', log_param = logged2\<rparr>
                   # (case param_change_history ?c2 of None \<Rightarrow> [] | Some hs \<Rightarrow> hs))\<rparr>)"
    and confirm: "\<And>f src. typeof (field ?def2 ''message'') \<noteq> ''function''
                 \<and> field ?def2 ''message_to_confirm'' = JFun f src
               \<Longrightarrow> field logged2 ''message'' = JStr src"
    and reaction: "truthy (field ?def2 ''reaction'') \<Longrightarrow> field logged2 ''reaction'' = JStr ''none''"
    by blast
  have m2: "field logged2 ''message'' = JStr ''async () => ask()''"
    by (rule confirm [of 2]) (simp add: field_def)
  have r2: "field logged2 ''reaction'' = JStr ''none''"
    by (rule reaction) (simp add: field_def)
  from run2 have run2': "save_param_change_log ''required_parameter'' ''param_d'' (JRef 8) ?c2
       = (Inr (), ?c2\<lparr>param_change_history :=
            Some [\<lparr>log_type = ''required_parameter'', log_name = ''param_d'', log_param = logged2\<rparr>]\<rparr>)"
    by (simp only: none option.case)
  from run2' m2 r2 have second: "\<exists>logged.
      save_param_change_log ''required_parameter'' ''param_d'' (JRef 8) ?c2
      = (Inr (), ?c2\<lparr>param_change_history :=
             Some [\<lparr>log_type = ''required_parameter'', log_name = ''param_d'',
                    log_param = logged\<rparr>]\<rparr>) \<and>
      field logged ''message'' = JStr ''async () => ask()'' \<and>
      field logged ''reaction'' = JStr ''none''"
    by blast
  from h first second show ?thesis
    by (simp only: simp_thms)
qed


text \<open>
  Claim C9 fails as stated: a \<open>message\<close> that is not a function does not pass
  through when the definition also has a function as \<open>message_to_confirm\<close>. The
  logged \<open>message\<close> is then the source text of \<open>message_to_confirm\<close>, and the
  message object is lost.
\<close>

theorem change_log_record_counterexample:
  "typeof (JRef 9) = ''object'' \<and>
   save_param_change_log ''required_parameter'' ''param_a''  (JRef 8)
     (example_context\<lparr>heap :=
        (8, [(''message'', JRef 9), (''message_to_confirm'', JFun 2 ''async () => ask()'')])
        # (9, [(''type'', JStr ''text''), (''text'', JStr ''param a?'')]) # example_store\<rparr>)
   = (Inr (), example_context\<lparr>heap :=
        (8, [(''message'', JRef 9), (''message_to_confirm'', JFun 2 ''async () => ask()'')])
        # (9, [(''type'', JStr ''text''), (''text'', JStr ''param a?'')]) # example_store,
        param_change_history :=
          Some [\<lparr>log_type = ''required_parameter'', log_name = ''param_a'',
                 log_param = [(''message'', JStr ''async () => ask()''),
                              (''message_to_confirm'', JFun 2 ''async () => ask()'')]\<rparr>]\<rparr>)"
  by code_simp

subsection \<open>A value the parser rejects\<close>

text \<open>
  When the parser rejects the value with an \<open>Error\<close>, \<open>apply_parameter\<close> keeps the
  error for the reaction and goes on to \<open>add_parameter\<close> with the value it was given.
\<close>

lemma apply_parameter_after_rejection:
  assumes "parse_parameter code n v False ctx = (Inl (JsError ''Error'' msg), ctx1)"
  shows "apply_parameter code n v True do_react ctx =
           (case add_parameter n v False ctx1 of
              (Inl e, ctx2) \<Rightarrow> (Inl e, ctx2)
            | (Inr u, ctx2) \<Rightarrow>
                if do_react then react code (Some (JsError ''Error'' msg)) n v ctx2
                else (Inr (), ctx2))"
  by (simp add: apply_parameter_def assms)

text \<open>
  Claim C1 on the example skill. The parser of \<open>param_b\<close> rejects \<open>"abc"\<close>, and
  \<open>confirmed.param_b\<close> is unset and \<open>param_b\<close> is in \<open>to_confirm\<close> before the call.
  After \<open>apply_parameter("param_b", "abc", true, true)\<close> the rejected value is in
  \<open>confirmed\<close>, \<open>param_b\<close> has left \<open>to_confirm\<close>, \<open>confirming\<close> is cleared and
  the name is in the history of confirmed parameters. The reaction did run with the
  error: it has set \<open>_pause\<close>, which it does only when it is handed one.
\<close>

theorem rejected_value_is_committed:
  "parse_parameter example_code ''param_b'' (JStr ''abc'') False example_context
     = (Inl (JsError ''Error'' ''not a number''), example_context) \<and>
   field (confirmed example_context) ''param_b'' = JUndefined \<and>
   to_confirm example_context = [''param_a'', ''param_b''] \<and>
   apply_parameter example_code ''param_b'' (JStr ''abc'') True True example_context
     = (Inr (), example_context\<lparr>confirmed := [(''param_b'', JStr ''abc'')],
          to_confirm := [''param_a''], confirming := None,
          previous_confirmed := [''param_b''], previous_processed := [''param_b''],
          flag_pause := True\<rparr>)"
  by code_simp

subsection \<open>A parser object is changed in the skill\<close>



















end
